theory Spec2Isabelle
  imports Main "HOL-Library.Sublist" "HOL-Library.AList"
begin

section \<open>The development server of df-plugin-dev-server (src/server.js)\<close>

text \<open>
  The module has two exported operations, \<open>bundle\<close> (a one-shot build) and \<open>start\<close>
  (the development proxy in front of esbuild's serve mode), two esbuild plugins that
  rewrite imports, and the generator of the bootstrap module served for \<open>?dev\<close>
  requests. Everything the module does through Node and its packages (the file
  system, \<open>get-port\<close>, \<open>fast-glob\<close>, \<open>esbuild\<close>, \<open>require.resolve\<close>, the URL parser,
  the outgoing HTTP request, \<open>chalk\<close>) is taken as a parameter, collected in the
  record \<open>env\<close>; what a promise does is a value of \<open>'a completion\<close>, and every call
  that leaves the process is written to a list of effects, in program order.
\<close>

subsection \<open>Values of the JavaScript program\<close>

text \<open>
  A thrown value or the reason of a rejected promise. The collaborators decide what
  they throw; the module itself throws only the \<open>TypeError\<close> of reading a property
  of \<open>undefined\<close>.
\<close>

datatype error = Error string | TypeError string

text \<open>
  How an \<open>async\<close> function of the module ends: its promise resolves, its promise
  rejects, or \<open>process.exit\<close> ends the process with an exit status.
\<close>

datatype 'a completion = Resolved 'a | Rejected error | Exited nat

subsection \<open>Strings and paths (Node's \<open>path\<close> module, POSIX flavour)\<close>

text \<open>\<open>Array.prototype.join\<close> on strings.\<close>

fun join_sep :: "string \<Rightarrow> string list \<Rightarrow> string" where
  "join_sep sep [] = []"
| "join_sep sep [x] = x"
| "join_sep sep (x # y # ys) = x @ sep @ join_sep sep (y # ys)"

text \<open>\<open>String.prototype.split\<close> at one character: \<open>"a//b"\<close> gives \<open>["a", "", "b"]\<close>.\<close>

fun split_at :: "char \<Rightarrow> string \<Rightarrow> string list" where
  "split_at c [] = [[]]"
| "split_at c (x # xs) =
     (if x = c then [] # split_at c xs
      else (case split_at c xs of [] \<Rightarrow> [[x]] | s # ss \<Rightarrow> (x # s) # ss))"

text \<open>The decimal text of a number, as a template literal prints it.\<close>

fun show_nat :: "nat \<Rightarrow> string" where
  "show_nat n =
     (if n < 10 then [''0123456789'' ! n]
      else show_nat (n div 10) @ [''0123456789'' ! (n mod 10)])"

declare show_nat.simps [simp del]

text \<open>
  \<open>path.normalize\<close>: empty and \<open>.\<close> segments are dropped, \<open>..\<close> removes the segment
  before it (and is kept in front of a relative path), a trailing slash is kept.
\<close>

definition normalize_segment :: "bool \<Rightarrow> string list \<Rightarrow> string \<Rightarrow> string list" where
  "normalize_segment allowAboveRoot res seg =
     (if seg = [] \<or> seg = ''.'' then res
      else if seg = ''..'' then
        (if res \<noteq> [] \<and> last res \<noteq> ''..'' then butlast res
         else if allowAboveRoot then res @ [''..'']
         else res)
      else res @ [seg])"

definition normalizeString :: "string \<Rightarrow> bool \<Rightarrow> string" where
  "normalizeString p allowAboveRoot =
     join_sep ''/'' (foldl (normalize_segment allowAboveRoot) [] (split_at (CHR ''/'') p))"

definition isAbsolute :: "string \<Rightarrow> bool" where
  "isAbsolute p = (case p of [] \<Rightarrow> False | c # _ \<Rightarrow> c = CHR ''/'')"

definition path_normalize :: "string \<Rightarrow> string" where
  "path_normalize p =
     (if p = [] then ''.''
      else
        let trailingSeparator = (last p = CHR ''/'');
            q = normalizeString p (\<not> isAbsolute p)
        in if q = [] then
             (if isAbsolute p then ''/'' else if trailingSeparator then ''./'' else ''.'')
           else
             (if isAbsolute p then ''/'' else []) @ q @
             (if trailingSeparator then ''/'' else []))"

text \<open>\<open>path.join\<close>: the non-empty arguments joined by a slash, then normalized.\<close>

definition path_join :: "string list \<Rightarrow> string" where
  "path_join paths =
     (let parts = filter (\<lambda>p. p \<noteq> []) paths
      in if parts = [] then ''.'' else path_normalize (join_sep ''/'' parts))"

text \<open>
  \<open>path.extname\<close>: from the last dot of the last path component to its end; empty
  when that component has no dot, starts with its only dot, or is \<open>..\<close>.
\<close>

definition path_extname :: "string \<Rightarrow> string" where
  "path_extname p =
     (let stripped = rev (dropWhile (\<lambda>c. c = CHR ''/'') (rev p));
          base = rev (takeWhile (\<lambda>c. c \<noteq> CHR ''/'') (rev stripped));
          tail = rev (takeWhile (\<lambda>c. c \<noteq> CHR ''.'') (rev base));
          stem = take (length base - length tail - 1) base
      in if CHR ''.'' \<notin> set base \<or> stem = [] \<or> base = ''..'' then []
         else CHR ''.'' # tail)"

subsection \<open>The bootstrap module (templateForPathname, lines 164-187)\<close>

text \<open>
  The function returns a template literal without any substitution: the text between
  the backticks, line by line. \<open>Date.now()\<close> is part of the text that the browser
  runs, it is not evaluated by the server.
\<close>

definition templateForPathname :: "string \<Rightarrow> string" where
  \<open>templateForPathname pathname =
     ''// Development plugin with auto-reload\<newline>'' @
     ''class Plugin {\<newline>'' @
     ''  constructor() {\<newline>'' @
     ''    this.plugin = null;\<newline>'' @
     ''  }\<newline>'' @
     ''  async render(container) {\<newline>'' @
     ''    const cacheBust = Date.now();\<newline>'' @
     ''    const modulePath = "/PluginTemplate.js?" + cacheBust;\<newline>'' @
     ''    const { default: RevealMarket } = await import(modulePath);\<newline>'' @
     ''    this.plugin = new RevealMarket();\<newline>'' @
     ''    await this.plugin?.render?.(container);\<newline>'' @
     ''  }\<newline>'' @
     ''  draw(ctx) {\<newline>'' @
     ''    this.plugin?.draw?.(ctx);\<newline>'' @
     ''  }\<newline>'' @
     ''  destroy() {\<newline>'' @
     ''    this.plugin?.destroy?.();\<newline>'' @
     ''  }\<newline>'' @
     ''}\<newline>'' @
     ''\<newline>'' @
     ''export default Plugin;\<newline>''\<close>

subsection \<open>esbuild plugins and build options\<close>

text \<open>
  What an \<open>onResolve\<close> callback returns: the path to use and, optionally, the flag
  that keeps the import out of the bundle (\<open>external\<close> is \<open>None\<close> where the object
  literal has no such key).
\<close>

record OnResolveResult =
  path :: string
  external :: "bool option"

text \<open>
  One \<open>build.onResolve({ filter }, callback)\<close> registration. The filter is the set of
  paths its regular expression matches; the callback reads only \<open>args.path\<close>.
\<close>

record onResolve =
  matches :: "string \<Rightarrow> bool"
  callback :: "string \<Rightarrow> error + OnResolveResult"

text \<open>A plugin object: its name and the registrations its \<open>setup\<close> makes, in order.\<close>

record plugin =
  name :: string
  registrations :: "onResolve list"

text \<open>The values that occur in the option objects handed to esbuild.\<close>

datatype jsval =
  JBool bool | JNumber nat | JString string | JArray "string list" | JPlugins "plugin list"

type_synonym object = "(string \<times> jsval) list"

text \<open>
  An object spread \<open>{ ...target, ...source }\<close>: the properties of the source are
  written into the target in order; a key already present keeps its place and takes
  the new value, a new key goes to the end.
\<close>

definition spread :: "('k \<times> 'v) list \<Rightarrow> ('k \<times> 'v) list \<Rightarrow> ('k \<times> 'v) list" where
  "spread target source = fold (\<lambda>(k, v). AList.update k v) source target"

subsection \<open>HTTP messages\<close>

text \<open>A header value of Node: a string, or an array of strings (\<open>set-cookie\<close>).\<close>

datatype header_value = Single string | Multiple "string list"

type_synonym headers = "(string \<times> header_value) list"

text \<open>The inbound request: \<open>req.url\<close>, \<open>req.method\<close>, \<open>req.headers\<close> and the bytes of its body.\<close>

record IncomingMessage =
  url :: string
  httpMethod :: string
  headers :: headers
  body :: string

text \<open>
  A response: the one esbuild's server gives (\<open>proxyRes\<close>) and the one written to the
  client (\<open>res.writeHead\<close>, then the body).
\<close>

record Response =
  statusCode :: nat
  responseHeaders :: headers
  responseBody :: string

text \<open>The \<open>options\<close> object of \<open>http.request\<close>.\<close>

record RequestOptions =
  hostname :: string
  port :: nat
  requestPath :: string
  requestMethod :: string
  requestHeaders :: headers

text \<open>What the handler reads of a parsed \<open>URL\<close>.\<close>

record URL =
  pathname :: string
  searchParams :: "(string \<times> string) list"

text \<open>\<open>URLSearchParams.prototype.has\<close>: some parameter has that name.\<close>

definition has :: "(string \<times> string) list \<Rightarrow> string \<Rightarrow> bool" where
  "has params n = (n \<in> set (map fst params))"

text \<open>A header value inside a template literal: \<open>undefined\<close>, the string, or the array joined by commas.\<close>

definition template_text :: "header_value option \<Rightarrow> string" where
  "template_text v =
     (case v of
        None \<Rightarrow> ''undefined''
      | Some (Single s) \<Rightarrow> s
      | Some (Multiple ss) \<Rightarrow> join_sep '','' ss)"

subsection \<open>The collaborators\<close>

text \<open>
  What the module calls outside itself. \<open>getPort\<close> maps the preferred port to the port
  it grants (it falls back to another free port, it does not fail); \<open>esbuild_build\<close>
  returns the build error, if any; \<open>esbuild_serve\<close> returns the host and port that
  esbuild bound; \<open>http_request\<close> takes the options and the request body and returns
  the response of the server behind the proxy, or the transport error.
\<close>

record env =
  cwd :: string
  underline :: "string \<Rightarrow> string"
  bold :: "string \<Rightarrow> string"
  require_resolve :: "string \<Rightarrow> error + string"
  fastGlob :: "string list option \<Rightarrow> error + string list"
  readdir :: "string \<Rightarrow> error + string list"
  getPort :: "nat \<Rightarrow> nat"
  esbuild_build :: "object \<Rightarrow> error option"
  esbuild_serve :: "object \<Rightarrow> object \<Rightarrow> error + string \<times> nat"
  URL_new :: "string \<Rightarrow> string \<Rightarrow> error + URL"
  http_request :: "RequestOptions \<Rightarrow> string \<Rightarrow> error + Response"

text \<open>The calls that leave the process, as they are recorded.\<close>

datatype effect =
    GetPort nat
  | Readdir string
  | FastGlob "string list option"
  | EsbuildBuild object
  | EsbuildServe object object
  | Listen nat
  | HttpRequest RequestOptions string
  | ConsoleLog string
  | ConsoleError string error
  | ProcessExit nat

subsection \<open>The import rewrite plugins (lines 15-42)\<close>

text \<open>\<open>/^https?:\/\//\<close>: the path starts with \<open>http://\<close> or with \<open>https://\<close>.\<close>

definition httpExternalResolver :: plugin where
  "httpExternalResolver =
     \<lparr>name = ''http-external'',
      registrations =
        [\<lparr>matches = (\<lambda>p. prefix ''http://'' p \<or> prefix ''https://'' p),
          callback = (\<lambda>p. Inr \<lparr>path = p, external = Some True\<rparr>)\<rparr>]\<rparr>"

text \<open>
  \<open>/^react-dom\/test-utils$/\<close>, \<open>/^react-dom$/\<close> and \<open>/^react$/\<close> match one path each;
  \<open>require.resolve\<close> runs when the callback runs, and what it throws the callback throws.
\<close>

definition resolve_to :: "env \<Rightarrow> string \<Rightarrow> string \<Rightarrow> error + OnResolveResult" where
  "resolve_to e request p =
     (case require_resolve e request of
        Inl err \<Rightarrow> Inl err
      | Inr file \<Rightarrow> Inr \<lparr>path = file, external = None\<rparr>)"

definition preactResolver :: "env \<Rightarrow> plugin" where
  "preactResolver e =
     \<lparr>name = ''preact'',
      registrations =
        [\<lparr>matches = (\<lambda>p. p = ''react-dom/test-utils''),
          callback = resolve_to e ''preact/test-utils''\<rparr>,
         \<lparr>matches = (\<lambda>p. p = ''react-dom''),
          callback = resolve_to e ''preact/compat''\<rparr>,
         \<lparr>matches = (\<lambda>p. p = ''react''),
          callback = resolve_to e ''preact/compat''\<rparr>]\<rparr>"

subsection \<open>The build options (lines 44-67)\<close>

definition getDefaultConfig :: object where
  "getDefaultConfig =
     [(''bundle'', JBool True), (''format'', JString ''esm''), (''target'', JArray [''es2020''])]"

definition getExtraConfig :: "env \<Rightarrow> bool \<Rightarrow> object" where
  "getExtraConfig e preact =
     (let plugins = [httpExternalResolver] @ (if preact then [preactResolver e] else []);
          jsxConfig =
            (if preact then [(''jsxFactory'', JString ''h''), (''jsxFragment'', JString ''Fragment'')]
             else [])
      in spread [(''plugins'', JPlugins plugins)] jsxConfig)"

subsection \<open>How esbuild applies the plugins to an import\<close>

text \<open>
  esbuild runs the \<open>onResolve\<close> callbacks of the \<open>plugins\<close> option in the order of the
  plugins and, inside a plugin, in the order of registration; the first callback
  whose filter matches the path and that returns a path decides, and a callback that
  throws fails the build. Both plugins return a path from every callback. An import
  whose result is marked \<open>external\<close> stays in the output under the returned path; any
  other result replaces the import by the file at the returned path.
\<close>

datatype classification = Unchanged | Externalize string | Redirect string

fun run_onResolve :: "onResolve list \<Rightarrow> string \<Rightarrow> error + OnResolveResult option" where
  "run_onResolve [] p = Inr None"
| "run_onResolve (r # rs) p =
     (if matches r p then
        (case callback r p of Inl err \<Rightarrow> Inl err | Inr res \<Rightarrow> Inr (Some res))
      else run_onResolve rs p)"

definition plugins_of :: "object \<Rightarrow> plugin list" where
  "plugins_of config =
     (case map_of config ''plugins'' of Some (JPlugins ps) \<Rightarrow> ps | _ \<Rightarrow> [])"

definition classify :: "object \<Rightarrow> string \<Rightarrow> error + classification" where
  "classify config p =
     (case run_onResolve (concat (map registrations (plugins_of config))) p of
        Inl err \<Rightarrow> Inl err
      | Inr None \<Rightarrow> Inr Unchanged
      | Inr (Some res) \<Rightarrow>
          Inr (if external res = Some True then Externalize (path res) else Redirect (path res)))"

subsection \<open>bundle (lines 69-85)\<close>

text \<open>
  \<open>glob\<close> is \<open>None\<close> when the caller passed no patterns; \<open>glob.map\<close> then throws, outside
  the \<open>try\<close>. Inside the \<open>try\<close> stand the log line and \<open>esbuild.build\<close>; the \<open>catch\<close>
  reports the error and ends the process with status 1.
\<close>

definition printLocation_of :: "env \<Rightarrow> string list \<Rightarrow> string" where
  "printLocation_of e glob =
     join_sep '', '' (map (\<lambda>g. underline e (path_join [cwd e, g])) glob)"

definition bundleConfig_of :: "env \<Rightarrow> bool \<Rightarrow> string list \<Rightarrow> string \<Rightarrow> object" where
  "bundleConfig_of e preact eps outdir =
     spread
       (spread [(''entryPoints'', JArray eps), (''outdir'', JString outdir)] getDefaultConfig)
       (getExtraConfig e preact)"

definition bundle' :: "env \<Rightarrow> string list option \<Rightarrow> bool \<Rightarrow> string \<Rightarrow> effect list \<times> unit completion" where
  "bundle' e glob preact outdir =
     (case fastGlob e glob of
        Inl err \<Rightarrow> ([FastGlob glob], Rejected err)
      | Inr eps \<Rightarrow>
          (case glob of
             None \<Rightarrow>
               ([FastGlob glob],
                Rejected (TypeError ''Cannot read properties of undefined (reading 'map')''))
           | Some patterns \<Rightarrow>
               let printLocation = printLocation_of e patterns;
                   line = ''ESBuild bundling '' @ printLocation @ '' into '' @
                          underline e outdir @ '' directory'';
                   config = bundleConfig_of e preact eps outdir
               in (case esbuild_build e config of
                     None \<Rightarrow>
                       ([FastGlob glob, ConsoleLog line, EsbuildBuild config], Resolved ())
                   | Some err \<Rightarrow>
                       ([FastGlob glob, ConsoleLog line, EsbuildBuild config,
                         ConsoleError ''Error occurred during bundling'' err, ProcessExit 1],
                        Exited 1))))"

subsection \<open>The request handler of the proxy (lines 125-156)\<close>

text \<open>
  The handler closes over the \<open>host\<close> and \<open>port\<close> that \<open>esbuild.serve\<close> returned. It
  ends by writing a response, or with an exception nothing catches: the one the
  \<open>URL\<close> constructor throws, or the \<open>error\<close> event of the forwarded request, which has
  no listener. Both bodies are piped through as they are.
\<close>

datatype handled = Responded Response | Uncaught error

definition forward_options :: "string \<Rightarrow> nat \<Rightarrow> IncomingMessage \<Rightarrow> RequestOptions" where
  "forward_options host port' req =
     \<lparr>hostname = host, port = port', requestPath = url req,
      requestMethod = httpMethod req, requestHeaders = headers req\<rparr>"

definition request_URL :: "env \<Rightarrow> IncomingMessage \<Rightarrow> error + URL" where
  "request_URL e req =
     URL_new e (url req) (''http://'' @ template_text (map_of (headers req) ''host''))"

definition requestListener :: "env \<Rightarrow> string \<Rightarrow> nat \<Rightarrow> IncomingMessage \<Rightarrow> effect list \<times> handled" where
  "requestListener e host port' req =
     (case request_URL e req of
        Inl err \<Rightarrow> ([], Uncaught err)
      | Inr u \<Rightarrow>
          if has (searchParams u) ''dev'' then
            ([],
             Responded
               \<lparr>statusCode = 200,
                responseHeaders =
                  [(''content-type'', Single ''application/javascript''),
                   (''access-control-allow-origin'', Single ''*'')],
                responseBody = templateForPathname (pathname u)\<rparr>)
          else
            let options = forward_options host port' req
            in (case http_request e options (body req) of
                  Inl err \<Rightarrow> ([HttpRequest options (body req)], Uncaught err)
                | Inr proxyRes \<Rightarrow>
                    ([HttpRequest options (body req)],
                     Responded
                       \<lparr>statusCode = statusCode proxyRes,
                        responseHeaders =
                          spread (responseHeaders proxyRes)
                            [(''access-control-allow-origin'', Single ''*'')],
                        responseBody = responseBody proxyRes\<rparr>)))"

subsection \<open>start (lines 87-162)\<close>

text \<open>
  The entry points (lines 91-110). \<open>dir\<close> and \<open>ext\<close> are \<open>None\<close> when the caller did not
  pass them. \<open>if (dir)\<close> holds for a non-empty string; \<open>ext || [".js", ".ts"]\<close> keeps
  any array that was passed, also an empty one.
\<close>

definition dir_entryPoints ::
  "env \<Rightarrow> string \<Rightarrow> string list option \<Rightarrow> effect list \<times> (error + string list \<times> string)" where
  "dir_entryPoints e d ext =
     (let exts = (case ext of None \<Rightarrow> [''.js'', ''.ts''] | Some given \<Rightarrow> given);
          pluginDir = path_join [cwd e, d]
      in (case readdir e pluginDir of
            Inl err \<Rightarrow> ([Readdir pluginDir], Inl err)
          | Inr allFiles \<Rightarrow>
              ([Readdir pluginDir],
               Inr (map (\<lambda>filename. path_join [d, filename])
                      (filter (\<lambda>filename. path_extname filename \<in> set exts) allFiles),
                    underline e pluginDir))))"

definition glob_entryPoints ::
  "env \<Rightarrow> string list option \<Rightarrow> effect list \<times> (error + string list \<times> string)" where
  "glob_entryPoints e glob =
     (case fastGlob e glob of
        Inl err \<Rightarrow> ([FastGlob glob], Inl err)
      | Inr entryPoints \<Rightarrow>
          (case glob of
             None \<Rightarrow>
               ([FastGlob glob],
                Inl (TypeError ''Cannot read properties of undefined (reading 'map')''))
           | Some patterns \<Rightarrow>
               ([FastGlob glob], Inr (entryPoints, printLocation_of e patterns))))"

definition resolve_entryPoints ::
  "env \<Rightarrow> string option \<Rightarrow> string list option \<Rightarrow> string list option \<Rightarrow>
   effect list \<times> (error + string list \<times> string)" where
  "resolve_entryPoints e dir ext glob =
     (case dir of
        None \<Rightarrow> glob_entryPoints e glob
      | Some d \<Rightarrow> if d = [] then glob_entryPoints e glob else dir_entryPoints e d ext)"

text \<open>
  What a started server is: the port the proxy listens on and the address of
  esbuild's server that its handler forwards to. \<open>listen\<close> is taken to succeed: its
  callback writes the two log lines.
\<close>

record ServeSession =
  internalHost :: string
  internalPort :: nat
  publicPort :: nat
  entryPoints :: "string list"

definition esbuildConfig_of :: "env \<Rightarrow> bool \<Rightarrow> string list \<Rightarrow> object" where
  "esbuildConfig_of e preact eps =
     spread
       (spread [(''sourcemap'', JBool True), (''entryPoints'', JArray eps)] getDefaultConfig)
       (getExtraConfig e preact)"

definition start ::
  "env \<Rightarrow> string option \<Rightarrow> string list option \<Rightarrow> string list option \<Rightarrow> bool \<Rightarrow>
   effect list \<times> ServeSession completion" where
  "start e dir ext glob preact =
     (let proxyPort = getPort e 2222;
          esbuildPort = getPort e 2221;
          asked = [GetPort 2222, GetPort 2221]
      in (case resolve_entryPoints e dir ext glob of
            (read, Inl err) \<Rightarrow> (asked @ read, Rejected err)
          | (read, Inr (eps, printLocation)) \<Rightarrow>
              let esbuildServeConfig = [(''port'', JNumber esbuildPort)];
                  esbuildConfig = esbuildConfig_of e preact eps;
                  served = EsbuildServe esbuildServeConfig esbuildConfig
              in (case esbuild_serve e esbuildServeConfig esbuildConfig of
                    Inl err \<Rightarrow> (asked @ read @ [served], Rejected err)
                  | Inr (host, port') \<Rightarrow>
                      (asked @ read @
                       [served, Listen proxyPort,
                        ConsoleLog (''ESBuild for '' @ printLocation @ '' on port '' @
                                    underline e (show_nat esbuildPort)),
                        ConsoleLog (''Development server started on '' @
                                    bold e (''http://127.0.0.1:'' @ show_nat proxyPort @ ''/''))],
                       Resolved
                         \<lparr>internalHost = host, internalPort = port',
                          publicPort = proxyPort, entryPoints = eps\<rparr>))))"

text \<open>The handler of a started server.\<close>

definition proxyServer :: "env \<Rightarrow> ServeSession \<Rightarrow> IncomingMessage \<Rightarrow> effect list \<times> handled" where
  "proxyServer e session req = requestListener e (internalHost session) (internalPort session) req"

text \<open>The effects that ask the port-selection collaborator for a port.\<close>

definition is_GetPort :: "effect \<Rightarrow> bool" where
  "is_GetPort x = (case x of GetPort _ \<Rightarrow> True | _ \<Rightarrow> False)"

subsection \<open>An environment to run the module in\<close>

text \<open>
  A stand-in for the \<open>URL\<close> constructor, for the examples only; the operations above
  never refer to it. It covers a part of what Node's constructor accepts and answers
  there as Node does: a base \<open>http://host\<close> or \<open>http://host:port\<close> whose host is a
  domain of plain labels or a dotted quad and whose port is at most 65535; a target in
  origin form, a target \<open>//host/path\<close>, \<open>http://host/path\<close> or \<open>https://host/path\<close>, or a
  relative target without a colon such as \<open>*\<close>; a path of unreserved characters
  without dot segments. Outside that part it throws, also where Node would not (other
  schemes, IPv6 literals, paths that Node would normalize or escape). The query runs
  from the first \<open>?\<close> to the \<open>#\<close>; its parameters are read as \<open>URLSearchParams\<close> reads
  them: split at \<open>&\<close>, each split at its first \<open>=\<close>, \<open>+\<close> read as a space, percent
  escapes decoded, as bytes.
\<close>

definition digit_value :: "char \<Rightarrow> nat" where
  "digit_value c = length (takeWhile (\<lambda>d. d \<noteq> c) ''0123456789'')"

definition is_digit :: "char \<Rightarrow> bool" where
  "is_digit c = (c \<in> set ''0123456789'')"

definition decimal :: "string \<Rightarrow> nat" where
  "decimal ds = foldl (\<lambda>n c. 10 * n + digit_value c) 0 ds"

definition hex_value :: "char \<Rightarrow> nat option" where
  "hex_value c =
     (if c \<in> set ''0123456789abcdef'' then
        Some (length (takeWhile (\<lambda>d. d \<noteq> c) ''0123456789abcdef''))
      else if c \<in> set ''ABCDEF'' then
        Some (10 + length (takeWhile (\<lambda>d. d \<noteq> c) ''ABCDEF''))
      else None)"

text \<open>The byte with the two hexadecimal digits \<open>hi\<close> and \<open>lo\<close>.\<close>

definition byte_of :: "nat \<Rightarrow> nat \<Rightarrow> char" where
  "byte_of hi lo =
     Char (odd lo) (odd (lo div 2)) (odd (lo div 4)) (odd (lo div 8))
          (odd hi) (odd (hi div 2)) (odd (hi div 4)) (odd (hi div 8))"

fun percent_decode :: "string \<Rightarrow> string" where
  "percent_decode (c # h # l # rest) =
     (case (c = CHR ''%'', hex_value h, hex_value l) of
        (True, Some a, Some b) \<Rightarrow> byte_of a b # percent_decode rest
      | _ \<Rightarrow> c # percent_decode (h # l # rest))"
| "percent_decode cs = cs"

definition form_decode :: "string \<Rightarrow> string" where
  "form_decode s = percent_decode (map (\<lambda>c. if c = CHR ''+'' then CHR '' '' else c) s)"

definition query_params :: "string \<Rightarrow> (string \<times> string) list" where
  "query_params q =
     map (\<lambda>kv. (form_decode (takeWhile (\<lambda>c. c \<noteq> CHR ''='') kv),
                 form_decode (drop 1 (dropWhile (\<lambda>c. c \<noteq> CHR ''='') kv))))
       (filter (\<lambda>kv. kv \<noteq> []) (split_at (CHR ''&'') q))"

text \<open>The query string of a request target.\<close>

definition request_query :: "string \<Rightarrow> string" where
  "request_query target =
     drop 1 (dropWhile (\<lambda>c. c \<noteq> CHR ''?'') (takeWhile (\<lambda>c. c \<noteq> CHR ''#'') target))"

definition label_ok :: "string \<Rightarrow> bool" where
  "label_ok l =
     (l \<noteq> [] \<and> \<not> prefix ''xn--'' l \<and> \<not> prefix ''XN--'' l \<and> \<not> prefix ''Xn--'' l \<and>
      \<not> prefix ''xN--'' l \<and>
      list_all
        (\<lambda>c. c \<in> set ''abcdefghijklmnopqrstuvwxyzABCDEFGHIJKLMNOPQRSTUVWXYZ0123456789-'') l)"

definition octet_ok :: "string \<Rightarrow> bool" where
  "octet_ok l =
     (l \<noteq> [] \<and> length l \<le> 3 \<and> list_all is_digit l \<and> (l = ''0'' \<or> hd l \<noteq> CHR ''0'') \<and>
      decimal l \<le> 255)"

definition hostname_ok :: "string \<Rightarrow> bool" where
  "hostname_ok h =
     (let labels = split_at (CHR ''.'') h
      in list_all label_ok labels \<and>
         (if is_digit (hd (last labels)) then length labels = 4 \<and> list_all octet_ok labels
          else True))"

definition port_ok :: "string \<Rightarrow> bool" where
  "port_ok p = (list_all is_digit p \<and> length p \<le> 5 \<and> decimal p \<le> 65535)"

definition authority_ok :: "string \<Rightarrow> bool" where
  "authority_ok a =
     (let h = takeWhile (\<lambda>c. c \<noteq> CHR '':'') a;
          rest = dropWhile (\<lambda>c. c \<noteq> CHR '':'') a
      in hostname_ok h \<and> (rest = [] \<or> port_ok (tl rest)))"

definition pathname_ok :: "string \<Rightarrow> bool" where
  "pathname_ok p =
     (list_all
        (\<lambda>c. c \<in> set
           ''abcdefghijklmnopqrstuvwxyzABCDEFGHIJKLMNOPQRSTUVWXYZ0123456789/-._~!$&()*+,;=:@'') p
      \<and> list_all (\<lambda>seg. seg \<noteq> ''.'' \<and> seg \<noteq> ''..'') (split_at (CHR ''/'') p))"

definition after_authority :: "string \<Rightarrow> string option" where
  "after_authority s =
     (if authority_ok (takeWhile (\<lambda>c. c \<noteq> CHR ''/'') s) then
        Some (case dropWhile (\<lambda>c. c \<noteq> CHR ''/'') s of [] \<Rightarrow> ''/'' | p \<Rightarrow> p)
      else None)"

definition locate :: "string \<Rightarrow> string option" where
  "locate p =
     (if prefix ''//'' p then after_authority (drop 2 p)
      else if prefix ''/'' p then Some p
      else if prefix ''http://'' p then after_authority (drop 7 p)
      else if prefix ''https://'' p then after_authority (drop 8 p)
      else if CHR '':'' \<in> set p then None
      else Some (''/'' @ p))"

definition example_URL :: "string \<Rightarrow> string \<Rightarrow> error + URL" where
  "example_URL target base =
     (let p = takeWhile (\<lambda>c. c \<noteq> CHR ''?'') (takeWhile (\<lambda>c. c \<noteq> CHR ''#'') target)
      in if prefix ''http://'' base \<and> authority_ok (drop 7 base) then
           (case locate p of
              Some found \<Rightarrow>
                if pathname_ok found then
                  Inr \<lparr>pathname = found, searchParams = query_params (request_query target)\<rparr>
                else Inl (TypeError ''Invalid URL'')
            | None \<Rightarrow> Inl (TypeError ''Invalid URL''))
         else Inl (TypeError ''Invalid URL''))"

text \<open>
  A machine on which port 2222 is taken and 2221 is free, with a plugin directory of
  four files, a pattern that matches a file esbuild cannot build, and an esbuild server
  that knows two assets, one of them sent with an \<open>access-control-allow-origin\<close> header
  of its own.
\<close>

definition example_env :: env where
  "example_env =
     \<lparr>cwd = ''/home/dev/plugin'',
      underline = (\<lambda>s. s),
      bold = (\<lambda>s. s),
      require_resolve =
        (\<lambda>request.
           if request = ''preact/compat'' then
             Inr ''/home/dev/plugin/node_modules/preact/compat/dist/compat.js''
           else if request = ''preact/test-utils'' then
             Inr ''/home/dev/plugin/node_modules/preact/test-utils/dist/testUtils.js''
           else Inl (Error ''MODULE_NOT_FOUND'')),
      fastGlob =
        (\<lambda>patterns.
           case patterns of
             None \<Rightarrow> Inl (TypeError ''Patterns must be a string or an array of strings'')
           | Some ps \<Rightarrow>
               Inr (if ps = [''src/*.ts''] then [''src/good.ts'', ''src/broken.ts'']
                    else if ps = [''plugins/*.js''] then [''plugins/a.js'']
                    else [])),
      readdir =
        (\<lambda>d. if d = ''/home/dev/plugin/plugins'' then Inr [''a.js'', ''b.css'', ''c.ts'', ''README'']
             else Inl (Error ''ENOENT'')),
      getPort = (\<lambda>preferred. if preferred = 2222 then 40123 else preferred),
      esbuild_build =
        (\<lambda>config.
           case map_of config ''entryPoints'' of
             Some (JArray eps) \<Rightarrow>
               if ''src/broken.ts'' \<in> set eps then Some (Error ''Build failed with 1 error'')
               else None
           | _ \<Rightarrow> None),
      esbuild_serve =
        (\<lambda>serveOptions buildOptions.
           case map_of serveOptions ''port'' of
             Some (JNumber n) \<Rightarrow> Inr (''127.0.0.1'', n)
           | _ \<Rightarrow> Inr (''127.0.0.1'', 8000)),
      URL_new = example_URL,
      http_request =
        (\<lambda>options b.
           if requestPath options = ''/a.js'' then
             Inr \<lparr>statusCode = 200,
                  responseHeaders =
                    [(''content-type'', Single ''text/javascript''),
                     (''content-length'', Single ''17'')],
                  responseBody = ''export default 1;''\<rparr>
           else if requestPath options = ''/cors.js'' then
             Inr \<lparr>statusCode = 200,
                  responseHeaders =
                    [(''access-control-allow-origin'', Single ''https://zkga.me''),
                     (''content-type'', Single ''text/javascript'')],
                  responseBody = ''export default 2;''\<rparr>
           else
             Inr \<lparr>statusCode = 404,
                  responseHeaders = [(''content-type'', Single ''text/plain'')],
                  responseBody = ''404 - Not Found''\<rparr>)\<rparr>"

definition example_request :: "string \<Rightarrow> IncomingMessage" where
  "example_request target =
     \<lparr>url = target, httpMethod = ''GET'',
      headers = [(''host'', Single ''127.0.0.1:40123''), (''accept'', Single ''*/*'')],
      body = []\<rparr>"

section \<open>Properties\<close>

subsection \<open>The bootstrap module\<close>

text \<open>The text has the 492 characters of the template literal.\<close>

lemma template_length: "length (templateForPathname p) = 492"
  by (simp add: templateForPathname_def)

lemma template_has_class_Plugin: "sublist ''class Plugin'' (templateForPathname p)"
proof -
  have "templateForPathname p =
      take 39 (templateForPathname p) @ ''class Plugin'' @ drop 51 (templateForPathname p)"
    by (simp add: templateForPathname_def)
  then show ?thesis
    by (metis sublist_appendI)
qed

lemma template_has_module_path: "sublist ''/PluginTemplate.js?'' (templateForPathname p)"
proof -
  have "templateForPathname p =
      take 186 (templateForPathname p) @ ''/PluginTemplate.js?'' @
      drop 205 (templateForPathname p)"
    by (simp add: templateForPathname_def)
  then show ?thesis
    by (metis sublist_appendI)
qed

text \<open>
  Claim C9. The generated source text does not depend on the pathname: for any two
  pathnames the generator returns the same characters.
\<close>

theorem templateForPathname_independent:
  "templateForPathname p1 = templateForPathname p2"
  by (simp add: templateForPathname_def)

subsection \<open>The import rewrite policy\<close>

lemma plugins_of_getExtraConfig:
  "plugins_of (getExtraConfig e preact) =
     httpExternalResolver # (if preact then [preactResolver e] else [])"
  by (simp add: plugins_of_def getExtraConfig_def spread_def)

lemma registrations_getExtraConfig:
  "concat (map registrations (plugins_of (getExtraConfig e preact))) =
     registrations httpExternalResolver @ (if preact then registrations (preactResolver e) else [])"
  by (simp add: plugins_of_getExtraConfig)

text \<open>
  Claim C3. A specifier that starts with \<open>http://\<close> or \<open>https://\<close> is externalized, with
  the alias plugin and without it, whatever \<open>require.resolve\<close> would do: the callback
  that decides returns the specifier itself as the path, marked external, so the
  import stays in the output as it was written.
\<close>

theorem http_specifiers_externalized:
  assumes "s = ''http://'' @ rest \<or> s = ''https://'' @ rest"
  shows "classify (getExtraConfig e True) s = Inr (Externalize s)
       \<and> classify (getExtraConfig e False) s = Inr (Externalize s)
       \<and> run_onResolve (concat (map registrations (plugins_of (getExtraConfig e True)))) s =
           Inr (Some \<lparr>path = s, external = Some True\<rparr>)
       \<and> run_onResolve (concat (map registrations (plugins_of (getExtraConfig e False)))) s =
           Inr (Some \<lparr>path = s, external = Some True\<rparr>)"
proof -
  from assms have m: "prefix ''http://'' s \<or> prefix ''https://'' s"
    by auto
  have "run_onResolve (concat (map registrations (plugins_of (getExtraConfig e preact)))) s =
          Inr (Some \<lparr>path = s, external = Some True\<rparr>)" for preact
    using m by (simp add: registrations_getExtraConfig httpExternalResolver_def)
  then show ?thesis
    by (simp add: classify_def)
qed

theorem http_specifiers_externalized_witness:
  "classify (getExtraConfig example_env True) ''https://cdn.skypack.dev/preact'' =
     Inr (Externalize ''https://cdn.skypack.dev/preact'')
   \<and> classify (getExtraConfig example_env False) ''https://cdn.skypack.dev/preact'' =
     Inr (Externalize ''https://cdn.skypack.dev/preact'')
   \<and> run_onResolve (concat (map registrations (plugins_of (getExtraConfig example_env True))))
        ''https://cdn.skypack.dev/preact'' =
       Inr (Some \<lparr>path = ''https://cdn.skypack.dev/preact'', external = Some True\<rparr>)
   \<and> run_onResolve (concat (map registrations (plugins_of (getExtraConfig example_env False))))
        ''https://cdn.skypack.dev/preact'' =
       Inr (Some \<lparr>path = ''https://cdn.skypack.dev/preact'', external = Some True\<rparr>)"
  using http_specifiers_externalized
    [of "''https://cdn.skypack.dev/preact''" "''cdn.skypack.dev/preact''" example_env]
  by simp

lemma classify_without_alias:
  "\<not> prefix ''http://'' s \<Longrightarrow> \<not> prefix ''https://'' s \<Longrightarrow>
   classify (getExtraConfig e False) s = Inr Unchanged"
  by (simp add: classify_def registrations_getExtraConfig httpExternalResolver_def)

lemma classify_react:
  "classify (getExtraConfig e True) ''react'' =
     (case require_resolve e ''preact/compat'' of
        Inl err \<Rightarrow> Inl err | Inr file \<Rightarrow> Inr (Redirect file))"
  by (simp add: classify_def registrations_getExtraConfig httpExternalResolver_def
      preactResolver_def resolve_to_def split: sum.splits)

lemma classify_react_dom:
  "classify (getExtraConfig e True) ''react-dom'' =
     (case require_resolve e ''preact/compat'' of
        Inl err \<Rightarrow> Inl err | Inr file \<Rightarrow> Inr (Redirect file))"
  by (simp add: classify_def registrations_getExtraConfig httpExternalResolver_def
      preactResolver_def resolve_to_def split: sum.splits)

lemma classify_test_utils:
  "classify (getExtraConfig e True) ''react-dom/test-utils'' =
     (case require_resolve e ''preact/test-utils'' of
        Inl err \<Rightarrow> Inl err | Inr file \<Rightarrow> Inr (Redirect file))"
  by (simp add: classify_def registrations_getExtraConfig httpExternalResolver_def
      preactResolver_def resolve_to_def split: sum.splits)

lemma isAbsolute_not_specifier:
  "isAbsolute p \<Longrightarrow>
   p \<noteq> [] \<and> p \<noteq> ''react'' \<and> p \<noteq> ''react-dom'' \<and> p \<noteq> ''react-dom/test-utils''"
  by (auto simp: isAbsolute_def)

text \<open>
  Claim C4. With the alias plugin, \<open>react\<close> and \<open>react-dom\<close> are redirected to the file
  that \<open>require.resolve("preact/compat")\<close> returns and \<open>react-dom/test-utils\<close> to the
  file of \<open>preact/test-utils\<close>; \<open>require.resolve\<close> returns absolute file names, so each
  target is non-empty and differs from the specifier. Without the plugin the three
  specifiers are left unchanged.
\<close>

theorem react_aliases:
  assumes "require_resolve e ''preact/compat'' = Inr compatFile"
      and "require_resolve e ''preact/test-utils'' = Inr testUtilsFile"
      and "isAbsolute compatFile" and "isAbsolute testUtilsFile"
  shows "classify (getExtraConfig e True) ''react'' = Inr (Redirect compatFile)
       \<and> classify (getExtraConfig e True) ''react-dom'' = Inr (Redirect compatFile)
       \<and> classify (getExtraConfig e True) ''react-dom/test-utils'' = Inr (Redirect testUtilsFile)
       \<and> compatFile \<noteq> [] \<and> compatFile \<noteq> ''react'' \<and> compatFile \<noteq> ''react-dom''
       \<and> testUtilsFile \<noteq> [] \<and> testUtilsFile \<noteq> ''react-dom/test-utils''
       \<and> classify (getExtraConfig e False) ''react'' = Inr Unchanged
       \<and> classify (getExtraConfig e False) ''react-dom'' = Inr Unchanged
       \<and> classify (getExtraConfig e False) ''react-dom/test-utils'' = Inr Unchanged"
proof -
  have "classify (getExtraConfig e False) ''react'' = Inr Unchanged"
       "classify (getExtraConfig e False) ''react-dom'' = Inr Unchanged"
       "classify (getExtraConfig e False) ''react-dom/test-utils'' = Inr Unchanged"
    by (simp_all add: classify_without_alias)
  moreover have "classify (getExtraConfig e True) ''react'' = Inr (Redirect compatFile)"
       "classify (getExtraConfig e True) ''react-dom'' = Inr (Redirect compatFile)"
       "classify (getExtraConfig e True) ''react-dom/test-utils'' = Inr (Redirect testUtilsFile)"
    using assms(1,2) by (simp_all add: classify_react classify_react_dom classify_test_utils)
  moreover note isAbsolute_not_specifier [OF assms(3)] isAbsolute_not_specifier [OF assms(4)]
  ultimately show ?thesis
    by simp
qed

theorem react_aliases_witness:
  "classify (getExtraConfig example_env True) ''react'' =
     Inr (Redirect ''/home/dev/plugin/node_modules/preact/compat/dist/compat.js'')
   \<and> classify (getExtraConfig example_env True) ''react-dom'' =
     Inr (Redirect ''/home/dev/plugin/node_modules/preact/compat/dist/compat.js'')
   \<and> classify (getExtraConfig example_env True) ''react-dom/test-utils'' =
     Inr (Redirect ''/home/dev/plugin/node_modules/preact/test-utils/dist/testUtils.js'')
   \<and> classify (getExtraConfig example_env False) ''react'' = Inr Unchanged
   \<and> classify (getExtraConfig example_env False) ''react-dom'' = Inr Unchanged
   \<and> classify (getExtraConfig example_env False) ''react-dom/test-utils'' = Inr Unchanged"
proof -
  have c: "require_resolve example_env ''preact/compat'' =
             Inr ''/home/dev/plugin/node_modules/preact/compat/dist/compat.js''"
    and t: "require_resolve example_env ''preact/test-utils'' =
             Inr ''/home/dev/plugin/node_modules/preact/test-utils/dist/testUtils.js''"
    by (simp_all add: example_env_def)
  have a: "isAbsolute ''/home/dev/plugin/node_modules/preact/compat/dist/compat.js''"
          "isAbsolute ''/home/dev/plugin/node_modules/preact/test-utils/dist/testUtils.js''"
    by (simp_all add: isAbsolute_def)
  from react_aliases [OF c t a] show ?thesis
    by simp
qed

subsection \<open>bundle\<close>

text \<open>
  Claim C5. Once the patterns are expanded, \<open>bundle\<close> ends in one of two ways. If
  \<open>esbuild.build\<close> fails, the error is written with \<open>console.error\<close> and the process
  exits with status 1, which is the last thing it does. If the build succeeds, the
  promise resolves with no value, and nothing is reported and no exit is called.
\<close>

theorem bundle_reports_build_error:
  assumes "fastGlob e (Some patterns) = Inr eps"
  shows "(\<forall>err. esbuild_build e (bundleConfig_of e preact eps outdir) = Some err \<longrightarrow>
            snd (bundle' e (Some patterns) preact outdir) = Exited 1
          \<and> ConsoleError ''Error occurred during bundling'' err
               \<in> set (fst (bundle' e (Some patterns) preact outdir))
          \<and> last (fst (bundle' e (Some patterns) preact outdir)) = ProcessExit 1)
       \<and> (esbuild_build e (bundleConfig_of e preact eps outdir) = None \<longrightarrow>
            snd (bundle' e (Some patterns) preact outdir) = Resolved ()
          \<and> (\<forall>status. ProcessExit status \<notin> set (fst (bundle' e (Some patterns) preact outdir)))
          \<and> (\<forall>msg err. ConsoleError msg err \<notin> set (fst (bundle' e (Some patterns) preact outdir))))"
  using assms by (simp add: bundle'_def Let_def)

lemma example_broken_build:
  "esbuild_build example_env
     (bundleConfig_of example_env False [''src/good.ts'', ''src/broken.ts''] ''dist'') =
   Some (Error ''Build failed with 1 error'')"
  by (simp add: example_env_def bundleConfig_of_def getDefaultConfig_def getExtraConfig_def
      spread_def)

lemma example_good_build:
  "esbuild_build example_env (bundleConfig_of example_env False [''plugins/a.js''] ''dist'') = None"
  by (simp add: example_env_def bundleConfig_of_def getDefaultConfig_def getExtraConfig_def
      spread_def)

theorem bundle_reports_build_error_witness:
  "snd (bundle' example_env (Some [''src/*.ts'']) False ''dist'') = Exited 1
   \<and> ConsoleError ''Error occurred during bundling'' (Error ''Build failed with 1 error'')
        \<in> set (fst (bundle' example_env (Some [''src/*.ts'']) False ''dist''))
   \<and> snd (bundle' example_env (Some [''plugins/*.js'']) False ''dist'') = Resolved ()"
proof -
  have g1: "fastGlob example_env (Some [''src/*.ts'']) = Inr [''src/good.ts'', ''src/broken.ts'']"
    and g2: "fastGlob example_env (Some [''plugins/*.js'']) = Inr [''plugins/a.js'']"
    by (simp_all add: example_env_def)
  from bundle_reports_build_error [OF g1, of False "''dist''"]
       bundle_reports_build_error [OF g2, of False "''dist''"]
       example_broken_build example_good_build
  show ?thesis
    by simp
qed

subsection \<open>The request handler\<close>

lemma spread_single: "spread target [(k, v)] = AList.update k v target"
  by (simp add: spread_def)

lemma requestListener_invalid_URL:
  "request_URL e req = Inl err \<Longrightarrow> requestListener e host port' req = ([], Uncaught err)"
  by (simp add: requestListener_def)

lemma requestListener_dev:
  assumes "request_URL e req = Inr u" and "has (searchParams u) ''dev''"
  shows "requestListener e host port' req =
           ([], Responded
                 \<lparr>statusCode = 200,
                  responseHeaders =
                    [(''content-type'', Single ''application/javascript''),
                     (''access-control-allow-origin'', Single ''*'')],
                  responseBody = templateForPathname (pathname u)\<rparr>)"
  using assms by (simp add: requestListener_def)

lemma requestListener_forward:
  assumes "request_URL e req = Inr u" and "\<not> has (searchParams u) ''dev''"
      and "http_request e (forward_options host port' req) (body req) = Inr proxyRes"
  shows "requestListener e host port' req =
           ([HttpRequest (forward_options host port' req) (body req)],
            Responded
              \<lparr>statusCode = statusCode proxyRes,
               responseHeaders =
                 AList.update ''access-control-allow-origin'' (Single ''*'') (responseHeaders proxyRes),
               responseBody = responseBody proxyRes\<rparr>)"
  using assms by (simp add: requestListener_def spread_single)

lemma requestListener_unreachable:
  assumes "request_URL e req = Inr u" and "\<not> has (searchParams u) ''dev''"
      and "http_request e (forward_options host port' req) (body req) = Inl err"
  shows "requestListener e host port' req =
           ([HttpRequest (forward_options host port' req) (body req)], Uncaught err)"
  using assms by (simp add: requestListener_def)

lemma example_authority: "authority_ok ''127.0.0.1:40123''"
  by (simp add: authority_ok_def hostname_ok_def label_ok_def octet_ok_def port_ok_def
      is_digit_def decimal_def digit_value_def)

lemma empty_authority: "\<not> authority_ok []"
  by (simp add: authority_ok_def hostname_ok_def label_ok_def)

lemma example_URL_without_host: "example_URL target ''http://'' = Inl (TypeError ''Invalid URL'')"
  by (simp add: example_URL_def empty_authority Let_def)

lemma example_dev_URL:
  "request_URL example_env (example_request ''/foo/bar?dev=1'') =
     Inr \<lparr>pathname = ''/foo/bar'', searchParams = [(''dev'', ''1'')]\<rparr>"
proof -
  have "example_URL ''/foo/bar?dev=1'' ''http://127.0.0.1:40123'' =
          Inr \<lparr>pathname = ''/foo/bar'', searchParams = [(''dev'', ''1'')]\<rparr>"
    by (simp add: example_URL_def example_authority locate_def pathname_ok_def query_params_def
        request_query_def form_decode_def Let_def)
  then show ?thesis
    by (simp add: request_URL_def example_env_def example_request_def template_text_def)
qed

lemma example_asset_URL:
  "request_URL example_env (example_request ''/a.js'') =
     Inr \<lparr>pathname = ''/a.js'', searchParams = []\<rparr>"
proof -
  have "example_URL ''/a.js'' ''http://127.0.0.1:40123'' =
          Inr \<lparr>pathname = ''/a.js'', searchParams = []\<rparr>"
    by (simp add: example_URL_def example_authority locate_def pathname_ok_def query_params_def
        request_query_def form_decode_def Let_def)
  then show ?thesis
    by (simp add: request_URL_def example_env_def example_request_def template_text_def)
qed

lemma example_cors_URL:
  "request_URL example_env (example_request ''/cors.js'') =
     Inr \<lparr>pathname = ''/cors.js'', searchParams = []\<rparr>"
proof -
  have "example_URL ''/cors.js'' ''http://127.0.0.1:40123'' =
          Inr \<lparr>pathname = ''/cors.js'', searchParams = []\<rparr>"
    by (simp add: example_URL_def example_authority locate_def pathname_ok_def query_params_def
        request_query_def form_decode_def Let_def)
  then show ?thesis
    by (simp add: request_URL_def example_env_def example_request_def template_text_def)
qed

lemma example_hostless_URL:
  "request_URL example_env
     \<lparr>url = target, httpMethod = ''GET'', headers = [(''host'', Single [])], body = []\<rparr>
   = Inl (TypeError ''Invalid URL'')"
  by (simp add: request_URL_def template_text_def example_URL_without_host)
     (simp add: example_env_def example_URL_without_host)

text \<open>An escaped parameter name is read as \<open>URLSearchParams\<close> reads it.\<close>

lemma escaped_dev_parameter: "has (query_params (request_query ''/x?d%65v=1&a+b=c'')) ''dev''"
  by (simp add: has_def query_params_def request_query_def form_decode_def hex_value_def
      byte_of_def)

text \<open>
  The handler parses the URL before it looks for \<open>dev\<close>, and nothing catches what the
  constructor throws. A request for \<open>/foo/bar?dev=1\<close> with an empty \<open>Host\<close> header has
  the base \<open>http://\<close>, which is no URL: the handler writes no response.
\<close>

theorem dev_request_with_empty_host_counterexample:
  "has (query_params (request_query ''/foo/bar?dev=1'')) ''dev''
   \<and> requestListener example_env ''127.0.0.1'' 2221
       \<lparr>url = ''/foo/bar?dev=1'', httpMethod = ''GET'', headers = [(''host'', Single [])],
        body = []\<rparr>
     = ([], Uncaught (TypeError ''Invalid URL''))"
proof -
  have "has (query_params (request_query ''/foo/bar?dev=1'')) ''dev''"
    by (simp add: has_def query_params_def request_query_def form_decode_def)
  then show ?thesis
    by (simp add: requestListener_invalid_URL [OF example_hostless_URL])
qed

text \<open>
  Claim C1, as it holds. When the \<open>URL\<close> constructor returns a URL for the request and
  that URL has a parameter named \<open>dev\<close>, whatever its value, the handler answers with
  status 200, the headers \<open>content-type: application/javascript\<close> and
  \<open>access-control-allow-origin: *\<close>, and a body that contains \<open>class Plugin\<close> and
  \<open>/PluginTemplate.js?\<close>.
\<close>

theorem dev_request_gets_bootstrap_module:
  assumes "request_URL e req = Inr u" and "has (searchParams u) ''dev''"
  shows "\<exists>res. snd (requestListener e host port' req) = Responded res
           \<and> statusCode res = 200
           \<and> map_of (responseHeaders res) ''content-type'' = Some (Single ''application/javascript'')
           \<and> map_of (responseHeaders res) ''access-control-allow-origin'' = Some (Single ''*'')
           \<and> sublist ''class Plugin'' (responseBody res)
           \<and> sublist ''/PluginTemplate.js?'' (responseBody res)"
  by (simp add: requestListener_dev [OF assms] template_has_class_Plugin template_has_module_path)

theorem dev_request_gets_bootstrap_module_witness:
  "\<exists>res. snd (requestListener example_env ''127.0.0.1'' 2221 (example_request ''/foo/bar?dev=1''))
            = Responded res
         \<and> statusCode res = 200
         \<and> map_of (responseHeaders res) ''content-type'' = Some (Single ''application/javascript'')
         \<and> map_of (responseHeaders res) ''access-control-allow-origin'' = Some (Single ''*'')
         \<and> sublist ''class Plugin'' (responseBody res)
         \<and> sublist ''/PluginTemplate.js?'' (responseBody res)"
proof -
  have "has (searchParams \<lparr>pathname = ''/foo/bar'', searchParams = [(''dev'', ''1'')]\<rparr>) ''dev''"
    by (simp add: has_def)
  from dev_request_gets_bootstrap_module [OF example_dev_URL this] show ?thesis .
qed

text \<open>
  Claim C6. On a request with a \<open>dev\<close> parameter the handler makes no request to
  esbuild's server, and its result is the same whatever that server would answer.
\<close>

theorem dev_request_never_contacts_bundler:
  assumes "request_URL e req = Inr u" and "has (searchParams u) ''dev''"
  shows "fst (requestListener e host port' req) = []
       \<and> (\<forall>server. requestListener (e\<lparr>http_request := server\<rparr>) host port' req
                      = requestListener e host port' req)"
proof -
  have "request_URL (e\<lparr>http_request := server\<rparr>) req = Inr u" for server
    using assms(1) by (simp add: request_URL_def)
  then show ?thesis
    using assms by (simp add: requestListener_dev)
qed

theorem dev_request_never_contacts_bundler_witness:
  "fst (requestListener example_env ''127.0.0.1'' 2221 (example_request ''/foo/bar?dev=1'')) = []
   \<and> requestListener (example_env\<lparr>http_request := (\<lambda>options b. Inl (Error ''ECONNREFUSED''))\<rparr>)
        ''127.0.0.1'' 2221 (example_request ''/foo/bar?dev=1'')
     = requestListener example_env ''127.0.0.1'' 2221 (example_request ''/foo/bar?dev=1'')"
proof -
  have "has (searchParams \<lparr>pathname = ''/foo/bar'', searchParams = [(''dev'', ''1'')]\<rparr>) ''dev''"
    by (simp add: has_def)
  from dev_request_never_contacts_bundler [OF example_dev_URL this] show ?thesis
    by blast
qed

text \<open>
  Two requests without a \<open>dev\<close> parameter that esbuild's server answers. The first has
  an empty \<open>Host\<close> header: the \<open>URL\<close> constructor throws and the handler writes no
  response. The second is answered by esbuild's server with an
  \<open>access-control-allow-origin\<close> header of its own: the handler replaces its value, so
  the headers it writes are not those of the answer with one header added.
\<close>

theorem forwarded_response_counterexample:
  "\<not> has (query_params (request_query ''/a.js'')) ''dev''
   \<and> http_request example_env
        (forward_options ''127.0.0.1'' 2221
           \<lparr>url = ''/a.js'', httpMethod = ''GET'', headers = [(''host'', Single [])], body = []\<rparr>)
        []
     = Inr \<lparr>statusCode = 200,
            responseHeaders =
              [(''content-type'', Single ''text/javascript''), (''content-length'', Single ''17'')],
            responseBody = ''export default 1;''\<rparr>
   \<and> requestListener example_env ''127.0.0.1'' 2221
       \<lparr>url = ''/a.js'', httpMethod = ''GET'', headers = [(''host'', Single [])], body = []\<rparr>
     = ([], Uncaught (TypeError ''Invalid URL''))
   \<and> \<not> has (query_params (request_query ''/cors.js'')) ''dev''
   \<and> http_request example_env
        (forward_options ''127.0.0.1'' 2221 (example_request ''/cors.js'')) []
     = Inr \<lparr>statusCode = 200,
            responseHeaders =
              [(''access-control-allow-origin'', Single ''https://zkga.me''),
               (''content-type'', Single ''text/javascript'')],
            responseBody = ''export default 2;''\<rparr>
   \<and> snd (requestListener example_env ''127.0.0.1'' 2221 (example_request ''/cors.js''))
     = Responded
         \<lparr>statusCode = 200,
          responseHeaders =
            [(''access-control-allow-origin'', Single ''*''),
             (''content-type'', Single ''text/javascript'')],
          responseBody = ''export default 2;''\<rparr>"
proof -
  have q: "\<not> has (query_params (request_query ''/a.js'')) ''dev''"
          "\<not> has (query_params (request_query ''/cors.js'')) ''dev''"
    by (simp_all add: has_def query_params_def request_query_def)
  have a: "http_request example_env
        (forward_options ''127.0.0.1'' 2221
           \<lparr>url = ''/a.js'', httpMethod = ''GET'', headers = [(''host'', Single [])], body = []\<rparr>)
        []
     = Inr \<lparr>statusCode = 200,
            responseHeaders =
              [(''content-type'', Single ''text/javascript''), (''content-length'', Single ''17'')],
            responseBody = ''export default 1;''\<rparr>"
    by (simp add: example_env_def forward_options_def)
  have c: "http_request example_env
        (forward_options ''127.0.0.1'' 2221 (example_request ''/cors.js''))
        (body (example_request ''/cors.js''))
     = Inr \<lparr>statusCode = 200,
            responseHeaders =
              [(''access-control-allow-origin'', Single ''https://zkga.me''),
               (''content-type'', Single ''text/javascript'')],
            responseBody = ''export default 2;''\<rparr>"
    by (simp add: example_env_def forward_options_def example_request_def)
  have n: "\<not> has (searchParams \<lparr>pathname = ''/cors.js'', searchParams = []\<rparr>) ''dev''"
    by (simp add: has_def)
  have b: "body (example_request ''/cors.js'') = []"
    by (simp add: example_request_def)
  from requestListener_forward [OF example_cors_URL n c]
       requestListener_invalid_URL [OF example_hostless_URL] q a c b
  show ?thesis
    by simp
qed

text \<open>
  Claim C2, as it holds. When the \<open>URL\<close> constructor returns a URL without a \<open>dev\<close>
  parameter and esbuild's server answers the forwarded request, the handler makes
  exactly one request, to the host and port of esbuild's server with the method,
  target, headers and body of the inbound request, and answers with the status code
  and the body of that answer. Its headers are those of the answer, in their order,
  with \<open>access-control-allow-origin\<close> set to \<open>*\<close>: added at the end when the answer has no
  such header, replacing its value when it has one; every other header is as
  esbuild's server sent it.
\<close>

theorem forwarded_response_is_unchanged:
  assumes "request_URL e req = Inr u" and "\<not> has (searchParams u) ''dev''"
      and "http_request e (forward_options host port' req) (body req) = Inr proxyRes"
  shows "\<exists>res. requestListener e host port' req =
                 ([HttpRequest
                     \<lparr>hostname = host, port = port', requestPath = url req,
                      requestMethod = httpMethod req, requestHeaders = headers req\<rparr>
                     (body req)],
                  Responded res)
           \<and> statusCode res = statusCode proxyRes
           \<and> responseBody res = responseBody proxyRes
           \<and> responseHeaders res =
               AList.update ''access-control-allow-origin'' (Single ''*'') (responseHeaders proxyRes)
           \<and> map_of (responseHeaders res) =
               (map_of (responseHeaders proxyRes))(''access-control-allow-origin'' \<mapsto> Single ''*'')
           \<and> (\<forall>k. k \<noteq> ''access-control-allow-origin'' \<longrightarrow>
                  map_of (responseHeaders res) k = map_of (responseHeaders proxyRes) k)"
  using requestListener_forward [OF assms]
  by (simp add: forward_options_def update_conv')

theorem forwarded_response_is_unchanged_witness:
  "\<exists>res. requestListener example_env ''127.0.0.1'' 2221 (example_request ''/a.js'') =
           ([HttpRequest
               \<lparr>hostname = ''127.0.0.1'', port = 2221, requestPath = ''/a.js'',
                requestMethod = ''GET'',
                requestHeaders = [(''host'', Single ''127.0.0.1:40123''), (''accept'', Single ''*/*'')]\<rparr>
               []],
            Responded res)
       \<and> statusCode res = 200
       \<and> responseBody res = ''export default 1;''
       \<and> map_of (responseHeaders res) ''content-type'' = Some (Single ''text/javascript'')
       \<and> map_of (responseHeaders res) ''content-length'' = Some (Single ''17'')
       \<and> map_of (responseHeaders res) ''access-control-allow-origin'' = Some (Single ''*'')"
proof -
  have q: "\<not> has (searchParams \<lparr>pathname = ''/a.js'', searchParams = []\<rparr>) ''dev''"
    by (simp add: has_def)
  have r: "http_request example_env
             (forward_options ''127.0.0.1'' 2221 (example_request ''/a.js''))
             (body (example_request ''/a.js'')) =
           Inr \<lparr>statusCode = 200,
                responseHeaders =
                  [(''content-type'', Single ''text/javascript''),
                   (''content-length'', Single ''17'')],
                responseBody = ''export default 1;''\<rparr>"
    by (simp add: example_env_def forward_options_def example_request_def)
  from forwarded_response_is_unchanged [OF example_asset_URL q r] show ?thesis
    by (auto simp: example_request_def)
qed

subsection \<open>start\<close>

lemma fst_start_cases:
  "fst (start e dir ext glob preact) =
     [GetPort 2222, GetPort 2221] @ fst (resolve_entryPoints e dir ext glob) @
     (case snd (resolve_entryPoints e dir ext glob) of
        Inl err \<Rightarrow> []
      | Inr (eps, printLocation) \<Rightarrow>
          EsbuildServe [(''port'', JNumber (getPort e 2221))] (esbuildConfig_of e preact eps) #
          (case esbuild_serve e [(''port'', JNumber (getPort e 2221))] (esbuildConfig_of e preact eps) of
             Inl err \<Rightarrow> []
           | Inr (host, port') \<Rightarrow>
               [Listen (getPort e 2222),
                ConsoleLog (''ESBuild for '' @ printLocation @ '' on port '' @
                            underline e (show_nat (getPort e 2221))),
                ConsoleLog (''Development server started on '' @
                            bold e (''http://127.0.0.1:'' @ show_nat (getPort e 2222) @ ''/''))]))"
  by (simp add: start_def Let_def split: prod.splits sum.splits)

lemma resolve_entryPoints_effects:
  "x \<in> set (fst (resolve_entryPoints e dir ext glob)) \<Longrightarrow>
   (\<exists>d. x = Readdir d) \<or> (\<exists>g. x = FastGlob g)"
  by (auto simp: resolve_entryPoints_def dir_entryPoints_def glob_entryPoints_def Let_def
      split: option.splits sum.splits if_splits)

lemma resolve_entryPoints_no_GetPort:
  "filter is_GetPort (fst (resolve_entryPoints e dir ext glob)) = []"
  by (auto simp: filter_empty_conv is_GetPort_def dest!: resolve_entryPoints_effects)

lemma dir_entryPoints_listing:
  assumes "readdir e (path_join [cwd e, d]) = Inr allFiles"
  shows "dir_entryPoints e d ext =
           ([Readdir (path_join [cwd e, d])],
            Inr (map (\<lambda>filename. path_join [d, filename])
                   (filter
                      (\<lambda>filename. path_extname filename \<in>
                         set (case ext of None \<Rightarrow> [''.js'', ''.ts''] | Some given \<Rightarrow> given))
                      allFiles),
                 underline e (path_join [cwd e, d])))"
  using assms by (simp add: dir_entryPoints_def Let_def)

lemma resolve_entryPoints_dir:
  "d \<noteq> [] \<Longrightarrow> resolve_entryPoints e (Some d) ext glob = dir_entryPoints e d ext"
  by (simp add: resolve_entryPoints_def)

lemma entryPoints_of_esbuildConfig:
  "map_of (esbuildConfig_of e preact eps) ''entryPoints'' = Some (JArray eps)"
  by (cases preact)
     (simp_all add: esbuildConfig_of_def getDefaultConfig_def getExtraConfig_def spread_def)

text \<open>The example machine: its ports, its plugin directory and a run of \<open>start\<close> on it.\<close>

lemma example_getPort: "getPort example_env p = (if p = 2222 then 40123 else p)"
  by (simp add: example_env_def)

lemma example_chalk: "underline example_env s = s" "bold example_env s = s"
  by (simp_all add: example_env_def)

lemma example_serve:
  "esbuild_serve example_env [(''port'', JNumber n)] config = Inr (''127.0.0.1'', n)"
  by (simp add: example_env_def)

lemma example_plugin_dir: "path_join [cwd example_env, ''plugins''] = ''/home/dev/plugin/plugins''"
  by code_simp

lemma example_readdir:
  "readdir example_env ''/home/dev/plugin/plugins'' = Inr [''a.js'', ''b.css'', ''c.ts'', ''README'']"
  by (simp add: example_env_def)

lemma example_kept:
  "map (\<lambda>filename. path_join [''plugins'', filename])
     (filter (\<lambda>filename. path_extname filename \<in> set [''.js'', ''.ts''])
        [''a.js'', ''b.css'', ''c.ts'', ''README'']) =
   [''plugins/a.js'', ''plugins/c.ts'']"
  by code_simp

lemma example_entryPoints:
  "resolve_entryPoints example_env (Some ''plugins'') None glob =
     ([Readdir ''/home/dev/plugin/plugins''],
      Inr ([''plugins/a.js'', ''plugins/c.ts''], ''/home/dev/plugin/plugins''))"
proof -
  have "readdir example_env (path_join [cwd example_env, ''plugins'']) =
          Inr [''a.js'', ''b.css'', ''c.ts'', ''README'']"
    by (simp only: example_plugin_dir example_readdir)
  from dir_entryPoints_listing [OF this, of None]
  have "dir_entryPoints example_env ''plugins'' None =
          ([Readdir ''/home/dev/plugin/plugins''],
           Inr ([''plugins/a.js'', ''plugins/c.ts''], ''/home/dev/plugin/plugins''))"
    by (simp only: option.case example_kept example_plugin_dir example_chalk)
  then show ?thesis
    by (simp add: resolve_entryPoints_dir)
qed

lemma example_start:
  "start example_env (Some ''plugins'') None glob False =
     ([GetPort 2222, GetPort 2221, Readdir ''/home/dev/plugin/plugins'',
       EsbuildServe [(''port'', JNumber 2221)]
         (esbuildConfig_of example_env False [''plugins/a.js'', ''plugins/c.ts'']),
       Listen 40123,
       ConsoleLog ''ESBuild for /home/dev/plugin/plugins on port 2221'',
       ConsoleLog ''Development server started on http://127.0.0.1:40123/''],
      Resolved \<lparr>internalHost = ''127.0.0.1'', internalPort = 2221, publicPort = 40123,
                entryPoints = [''plugins/a.js'', ''plugins/c.ts'']\<rparr>)"
proof -
  have n1: "show_nat 2221 = ''2221''" and n2: "show_nat 40123 = ''40123''"
    by (simp_all add: show_nat.simps)
  show ?thesis
    by (simp add: start_def Let_def example_entryPoints example_getPort example_serve
        example_chalk n1 n2)
qed

text \<open>
  Claim C10. Every run of \<open>start\<close> asks the port-selection collaborator exactly
  twice, first with the preferred port 2222 and then with 2221. The only port the proxy
  ever listens on is the one granted for 2222, the port option given to \<open>esbuild.serve\<close>
  is the one granted for 2221, and a run that ends normally has made the proxy listen.
\<close>

theorem start_asks_and_binds_ports:
  "filter is_GetPort (fst (start e dir ext glob preact)) = [GetPort 2222, GetPort 2221]
   \<and> (\<forall>p. Listen p \<in> set (fst (start e dir ext glob preact)) \<longrightarrow> p = getPort e 2222)
   \<and> (\<forall>serveOptions buildOptions.
         EsbuildServe serveOptions buildOptions \<in> set (fst (start e dir ext glob preact)) \<longrightarrow>
         serveOptions = [(''port'', JNumber (getPort e 2221))])
   \<and> (\<forall>session. snd (start e dir ext glob preact) = Resolved session \<longrightarrow>
         publicPort session = getPort e 2222
       \<and> Listen (getPort e 2222) \<in> set (fst (start e dir ext glob preact)))"
proof -
  have a: "filter is_GetPort (fst (start e dir ext glob preact)) = [GetPort 2222, GetPort 2221]"
    by (simp add: fst_start_cases resolve_entryPoints_no_GetPort is_GetPort_def
        split: sum.splits prod.splits)
  have c: "\<forall>p. Listen p \<in> set (fst (start e dir ext glob preact)) \<longrightarrow> p = getPort e 2222"
    by (auto simp: fst_start_cases split: sum.splits prod.splits dest: resolve_entryPoints_effects)
  have d: "\<forall>serveOptions buildOptions.
         EsbuildServe serveOptions buildOptions \<in> set (fst (start e dir ext glob preact)) \<longrightarrow>
         serveOptions = [(''port'', JNumber (getPort e 2221))]"
    by (auto simp: fst_start_cases split: sum.splits prod.splits dest: resolve_entryPoints_effects)
  have f: "\<forall>session. snd (start e dir ext glob preact) = Resolved session \<longrightarrow>
         publicPort session = getPort e 2222
       \<and> Listen (getPort e 2222) \<in> set (fst (start e dir ext glob preact))"
    by (auto simp: start_def Let_def split: sum.splits prod.splits)
  from a c d f show ?thesis
    by blast
qed

theorem start_asks_and_binds_ports_witness:
  "filter is_GetPort (fst (start example_env (Some ''plugins'') None None False))
     = [GetPort 2222, GetPort 2221]
   \<and> getPort example_env 2222 = 40123
   \<and> Listen 40123 \<in> set (fst (start example_env (Some ''plugins'') None None False))
   \<and> Listen 2221 \<notin> set (fst (start example_env (Some ''plugins'') None None False))"
proof -
  let ?run = "start example_env (Some ''plugins'') None None False"
  note t = start_asks_and_binds_ports [of example_env "Some ''plugins''" None None False]
  have g: "getPort example_env 2222 = 40123"
    by (simp add: example_getPort)
  have s: "snd ?run =
             Resolved \<lparr>internalHost = ''127.0.0.1'', internalPort = 2221, publicPort = 40123,
                       entryPoints = [''plugins/a.js'', ''plugins/c.ts'']\<rparr>"
    by (simp add: example_start)
  from t have a: "filter is_GetPort (fst ?run) = [GetPort 2222, GetPort 2221]"
    by (rule conjunct1)
  from t have l: "\<forall>p. Listen p \<in> set (fst ?run) \<longrightarrow> p = getPort example_env 2222"
    by blast
  from t s have b: "Listen (getPort example_env 2222) \<in> set (fst ?run)"
    by blast
  from l g have "Listen 2221 \<notin> set (fst ?run)"
    by fastforce
  with a b g show ?thesis
    by simp
qed

text \<open>
  Claim C8. When \<open>start\<close> is given a directory (a non-empty string, which is what
  \<open>if (dir)\<close> accepts), the patterns play no part: the run is the same for every value
  of \<open>glob\<close> and never calls fast-glob. It lists the directory under the working
  directory, and the entry points handed to \<open>esbuild.serve\<close> are the listed names whose
  extension is in \<open>ext\<close>, or in \<open>.js\<close>, \<open>.ts\<close> when no \<open>ext\<close> was passed, each joined to
  the directory.
\<close>

theorem directory_mode_wins:
  assumes "d \<noteq> []"
  shows "(\<forall>glob'. start e (Some d) ext glob' preact = start e (Some d) ext glob preact)
       \<and> (\<forall>g. FastGlob g \<notin> set (fst (start e (Some d) ext glob preact)))
       \<and> (\<forall>allFiles. readdir e (path_join [cwd e, d]) = Inr allFiles \<longrightarrow>
            take 4 (fst (start e (Some d) ext glob preact)) =
              [GetPort 2222, GetPort 2221, Readdir (path_join [cwd e, d]),
               EsbuildServe [(''port'', JNumber (getPort e 2221))]
                 (esbuildConfig_of e preact
                    (map (\<lambda>filename. path_join [d, filename])
                       (filter
                          (\<lambda>filename. path_extname filename \<in>
                             set (case ext of None \<Rightarrow> [''.js'', ''.ts''] | Some given \<Rightarrow> given))
                          allFiles)))]
          \<and> map_of
               (esbuildConfig_of e preact
                  (map (\<lambda>filename. path_join [d, filename])
                     (filter
                        (\<lambda>filename. path_extname filename \<in>
                           set (case ext of None \<Rightarrow> [''.js'', ''.ts''] | Some given \<Rightarrow> given))
                        allFiles)))
               ''entryPoints'' =
              Some (JArray
                (map (\<lambda>filename. path_join [d, filename])
                   (filter
                      (\<lambda>filename. path_extname filename \<in>
                         set (case ext of None \<Rightarrow> [''.js'', ''.ts''] | Some given \<Rightarrow> given))
                      allFiles))))"
proof -
  have r: "resolve_entryPoints e (Some d) ext g = dir_entryPoints e d ext" for g
    using assms by (rule resolve_entryPoints_dir)
  have a: "\<forall>glob'. start e (Some d) ext glob' preact = start e (Some d) ext glob preact"
    by (simp add: start_def r)
  have b: "\<forall>g. FastGlob g \<notin> set (fst (start e (Some d) ext glob preact))"
    by (auto simp: fst_start_cases r dir_entryPoints_def Let_def split: sum.splits prod.splits)
  have c: "take 4 (fst (start e (Some d) ext glob preact)) =
              [GetPort 2222, GetPort 2221, Readdir (path_join [cwd e, d]),
               EsbuildServe [(''port'', JNumber (getPort e 2221))]
                 (esbuildConfig_of e preact
                    (map (\<lambda>filename. path_join [d, filename])
                       (filter
                          (\<lambda>filename. path_extname filename \<in>
                             set (case ext of None \<Rightarrow> [''.js'', ''.ts''] | Some given \<Rightarrow> given))
                          allFiles)))]"
    if "readdir e (path_join [cwd e, d]) = Inr allFiles" for allFiles
    by (simp add: fst_start_cases r dir_entryPoints_listing [OF that])
  from a b c show ?thesis
    by (simp add: entryPoints_of_esbuildConfig)
qed

theorem directory_mode_wins_witness:
  "start example_env (Some ''plugins'') None (Some [''src/*.ts'']) False
     = start example_env (Some ''plugins'') None None False
   \<and> FastGlob (Some [''src/*.ts''])
        \<notin> set (fst (start example_env (Some ''plugins'') None (Some [''src/*.ts'']) False))
   \<and> take 4 (fst (start example_env (Some ''plugins'') None (Some [''src/*.ts'']) False)) =
       [GetPort 2222, GetPort 2221, Readdir ''/home/dev/plugin/plugins'',
        EsbuildServe [(''port'', JNumber 2221)]
          (esbuildConfig_of example_env False [''plugins/a.js'', ''plugins/c.ts''])]"
proof -
  let ?run = "start example_env (Some ''plugins'') None (Some [''src/*.ts'']) False"
  have d: "''plugins'' \<noteq> []"
    by simp
  note t = directory_mode_wins [OF d, of example_env None False "Some [''src/*.ts'']"]
  have r: "readdir example_env (path_join [cwd example_env, ''plugins'']) =
          Inr [''a.js'', ''b.css'', ''c.ts'', ''README'']"
    by (simp only: example_plugin_dir example_readdir)
  from t have a: "start example_env (Some ''plugins'') None None False = ?run"
    by blast
  from t have b: "FastGlob (Some [''src/*.ts'']) \<notin> set (fst ?run)"
    by blast
  from t r have "take 4 (fst ?run) =
      [GetPort 2222, GetPort 2221, Readdir (path_join [cwd example_env, ''plugins'']),
       EsbuildServe [(''port'', JNumber (getPort example_env 2221))]
         (esbuildConfig_of example_env False
            (map (\<lambda>filename. path_join [''plugins'', filename])
               (filter
                  (\<lambda>filename. path_extname filename \<in>
                     set (case None of None \<Rightarrow> [''.js'', ''.ts''] | Some given \<Rightarrow> given))
                  [''a.js'', ''b.css'', ''c.ts'', ''README''])))]"
    by blast
  then have c: "take 4 (fst ?run) =
       [GetPort 2222, GetPort 2221, Readdir ''/home/dev/plugin/plugins'',
        EsbuildServe [(''port'', JNumber 2221)]
          (esbuildConfig_of example_env False [''plugins/a.js'', ''plugins/c.ts''])]"
    by (simp only: option.case example_kept example_plugin_dir example_getPort) simp
  from a b c show ?thesis
    by simp
qed

subsection \<open>The branches without a response and the empty directory\<close>

text \<open>
  When the \<open>URL\<close> constructor throws on the request target, the handler writes no
  response and makes no request: the exception leaves the handler uncaught.
\<close>

theorem invalid_URL_is_uncaught:
  assumes "request_URL e req = Inl err"
  shows "requestListener e host port' req = ([], Uncaught err)"
  using assms by (rule requestListener_invalid_URL)

theorem invalid_URL_is_uncaught_witness:
  "requestListener example_env ''127.0.0.1'' 2221
     \<lparr>url = ''/foo/bar?dev=1'', httpMethod = ''GET'', headers = [(''host'', Single [])], body = []\<rparr>
   = ([], Uncaught (TypeError ''Invalid URL''))"
proof -
  have "request_URL example_env
          \<lparr>url = ''/foo/bar?dev=1'', httpMethod = ''GET'', headers = [(''host'', Single [])], body = []\<rparr>
        = Inl (TypeError ''Invalid URL'')"
    by (rule example_hostless_URL)
  then show ?thesis
    by (rule invalid_URL_is_uncaught)
qed

text \<open>
  When the forwarded request fails, the handler has made that one request and writes
  no response of its own: the error is not caught.
\<close>

theorem transport_error_is_uncaught:
  assumes "request_URL e req = Inr u" and "\<not> has (searchParams u) ''dev''"
      and "http_request e (forward_options host port' req) (body req) = Inl err"
  shows "requestListener e host port' req =
           ([HttpRequest (forward_options host port' req) (body req)], Uncaught err)"
  using assms by (rule requestListener_unreachable)

theorem transport_error_is_uncaught_witness:
  "requestListener (example_env\<lparr>http_request := (\<lambda>options b. Inl (Error ''ECONNREFUSED''))\<rparr>)
     ''127.0.0.1'' 2221 (example_request ''/a.js'')
   = ([HttpRequest (forward_options ''127.0.0.1'' 2221 (example_request ''/a.js'')) []],
      Uncaught (Error ''ECONNREFUSED''))"
proof -
  let ?down = "example_env\<lparr>http_request := (\<lambda>options b. Inl (Error ''ECONNREFUSED''))\<rparr>"
  have u: "request_URL ?down (example_request ''/a.js'') =
             Inr \<lparr>pathname = ''/a.js'', searchParams = []\<rparr>"
    using example_asset_URL by (simp add: request_URL_def)
  have q: "\<not> has (searchParams \<lparr>pathname = ''/a.js'', searchParams = []\<rparr>) ''dev''"
    by (simp add: has_def)
  have r: "http_request ?down (forward_options ''127.0.0.1'' 2221 (example_request ''/a.js''))
             (body (example_request ''/a.js'')) = Inl (Error ''ECONNREFUSED'')"
    by simp
  from transport_error_is_uncaught [OF u q r] show ?thesis
    by (simp add: example_request_def)
qed

text \<open>
  An empty string for \<open>dir\<close> is falsy: \<open>start\<close> then runs as if no directory had been
  passed, on the patterns.
\<close>

theorem empty_dir_is_glob_mode:
  "start e (Some []) ext glob preact = start e None ext glob preact"
  by (simp add: start_def resolve_entryPoints_def)

text \<open>
  A run of \<open>start\<close> that ends normally leaves a proxy on the port granted for 2222
  whose handler forwards to the host and port that \<open>esbuild.serve\<close> returned for the
  port granted for 2221. \<open>start\<close> does not compare the two ports.
\<close>

theorem session_addresses:
  assumes "snd (start e dir ext glob preact) = Resolved session"
  shows "publicPort session = getPort e 2222
       \<and> esbuild_serve e [(''port'', JNumber (getPort e 2221))]
            (esbuildConfig_of e preact (entryPoints session))
          = Inr (internalHost session, internalPort session)
       \<and> proxyServer e session = requestListener e (internalHost session) (internalPort session)"
proof -
  have "publicPort session = getPort e 2222
      \<and> esbuild_serve e [(''port'', JNumber (getPort e 2221))]
            (esbuildConfig_of e preact (entryPoints session))
          = Inr (internalHost session, internalPort session)"
    using assms by (auto simp: start_def Let_def split: sum.splits prod.splits)
  moreover have "proxyServer e session = requestListener e (internalHost session) (internalPort session)"
    by (rule ext) (simp add: proxyServer_def)
  ultimately show ?thesis
    by simp
qed

theorem session_addresses_witness:
  "publicPort \<lparr>internalHost = ''127.0.0.1'', internalPort = 2221, publicPort = 40123,
              entryPoints = [''plugins/a.js'', ''plugins/c.ts'']\<rparr> = getPort example_env 2222
   \<and> esbuild_serve example_env [(''port'', JNumber (getPort example_env 2221))]
        (esbuildConfig_of example_env False [''plugins/a.js'', ''plugins/c.ts''])
      = Inr (''127.0.0.1'', 2221)"
proof -
  have "snd (start example_env (Some ''plugins'') None None False) =
          Resolved \<lparr>internalHost = ''127.0.0.1'', internalPort = 2221, publicPort = 40123,
                    entryPoints = [''plugins/a.js'', ''plugins/c.ts'']\<rparr>"
    by (simp add: example_start)
  from session_addresses [OF this] show ?thesis
    by simp
qed

end
